theory Spec2Isabelle
  imports Main
begin

section \<open>Python values, exceptions and results\<close>

text \<open>
  The values that travel through \<^verbatim>\<open>app.py\<close> are JSON values: the parsed request body,
  the transcription service's reply, the completion object, and the dictionaries handed to
  \<^verbatim>\<open>jsonify\<close>. Python's \<^verbatim>\<open>None\<close> is \<open>JNull\<close>; a \<^verbatim>\<open>str\<close> is a \<open>string\<close>; a
  \<^verbatim>\<open>dict\<close> is an association list with \<open>map_of\<close> as lookup. JSON numbers are the
  integers (floats are not modelled); \<^verbatim>\<open>bytes\<close> are strings as well.
\<close>

datatype json =
    JNull
  | JBool bool
  | JInt int
  | JStr string
  | JArr "json list"
  | JObj "(string \<times> json) list"

text \<open>Python truthiness, as \<^verbatim>\<open>if x:\<close>, \<^verbatim>\<open>not x\<close> and \<^verbatim>\<open>x or y\<close> test it.\<close>

fun truthy :: "json \<Rightarrow> bool" where
  "truthy JNull = False"
| "truthy (JBool b) = b"
| "truthy (JInt n) = (n \<noteq> 0)"
| "truthy (JStr s) = (s \<noteq> [])"
| "truthy (JArr xs) = (xs \<noteq> [])"
| "truthy (JObj kv) = (kv \<noteq> [])"

text \<open>An optional string (\<^verbatim>\<open>os.getenv\<close>, \<^verbatim>\<open>openai.api_key\<close>, \<^verbatim>\<open>form.get\<close>) as a Python value.\<close>

fun of_opt :: "string option \<Rightarrow> json" where
  "of_opt None = JNull"
| "of_opt (Some s) = JStr s"

text \<open>
  The exceptions that can occur. \<^verbatim>\<open>openai.error.AuthenticationError\<close> and its siblings
  are subclasses of \<^verbatim>\<open>OpenAIError\<close>, which is a subclass of \<^verbatim>\<open>Exception\<close>, as is
  everything else here.
\<close>

datatype openai_error =
    AuthenticationError
  | APIError
  | RateLimitError
  | InvalidRequestError
  | APIConnectionError
  | ServiceUnavailableError
  | Timeout

datatype py_exn =
    OpenAIError openai_error
  | KeyError
  | IndexError
  | TypeError
  | AttributeError
  | AssertionError
  | ValueError
  | OSError
  | RequestException
  | OtherException

type_synonym 'a result = "py_exn + 'a"

text \<open>\<^verbatim>\<open>xs[i]\<close> raises \<^verbatim>\<open>IndexError\<close> out of range.\<close>

definition py_index :: "'a list \<Rightarrow> nat \<Rightarrow> 'a result" where
  "py_index xs i = (if i < length xs then Inr (xs ! i) else Inl IndexError)"

text \<open>\<^verbatim>\<open>d.get(k)\<close> on a dictionary: the value, or \<^verbatim>\<open>None\<close>.\<close>

definition dict_get :: "(string \<times> json) list \<Rightarrow> string \<Rightarrow> json" where
  "dict_get kv k = (case map_of kv k of None \<Rightarrow> JNull | Some v \<Rightarrow> v)"

section \<open>Strings\<close>

text \<open>\<^verbatim>\<open>str.lower\<close> on ASCII letters; no other character lowers to a letter of \<^verbatim>\<open>webm\<close>.\<close>

definition py_lower_char :: "char \<Rightarrow> char" where
  "py_lower_char c =
     (if (65::nat) \<le> of_char c \<and> of_char c \<le> (90::nat)
      then char_of (of_char c + (32::nat)) else c)"

definition py_lower :: "string \<Rightarrow> string" where
  "py_lower s = map py_lower_char s"

text \<open>
  \<^verbatim>\<open>s.rsplit(sep, 1)\<close> for a one-character separator: the string itself when the separator
  does not occur, else the part before the last separator and the part after it.
\<close>

definition rsplit1 :: "char \<Rightarrow> string \<Rightarrow> string list" where
  "rsplit1 sep s =
     (if sep \<in> set s
      then [rev (tl (dropWhile (\<lambda>c. c \<noteq> sep) (rev s))),
            rev (takeWhile (\<lambda>c. c \<noteq> sep) (rev s))]
      else [s])"

section \<open>The extension allow-list\<close>

definition ALLOWED_EXTENSIONS :: "string set" where
  "ALLOWED_EXTENSIONS = {''webm''}"

text \<open>
  \<^verbatim>\<open>'.' in filename and filename.rsplit('.', 1)[1].lower() in app.config['ALLOWED_EXTENSIONS']\<close>
\<close>

definition allowed_file :: "string \<Rightarrow> bool result" where
  "allowed_file fname =
     (if CHR ''.'' \<in> set fname
      then (case py_index (rsplit1 (CHR ''.'') fname) 1 of
              Inl e \<Rightarrow> Inl e
            | Inr ext \<Rightarrow> Inr (py_lower ext \<in> ALLOWED_EXTENSIONS))
      else Inr False)"

section \<open>The world a request runs in\<close>

text \<open>
  Every call that leaves the function it is made in is recorded, in order, in the
  \<open>trace\<close>: the entry into each component and each external effect. The files on disk are
  a map from paths to contents.
\<close>

datatype event =
    E_file_save string
  | E_process_audio string
  | E_open_read string
  | E_requests_post string string
  | E_get_anwer_openai json
  | E_ChatCompletion_create json
  | E_text_to_audio string string

record world =
  files :: "string \<Rightarrow> string option"
  trace :: "event list"

definition emit :: "event \<Rightarrow> world \<Rightarrow> world" where
  "emit e w = w\<lparr>trace := trace w @ [e]\<rparr>"

text \<open>The calls made between two worlds.\<close>

definition calls_since :: "world \<Rightarrow> world \<Rightarrow> event list" where
  "calls_since w w' = drop (length (trace w)) (trace w')"

fun transcriber_call :: "event \<Rightarrow> bool" where
  "transcriber_call (E_process_audio p) = True"
| "transcriber_call (E_open_read p) = True"
| "transcriber_call (E_requests_post u d) = True"
| "transcriber_call e = False"

fun answer_generator_call :: "event \<Rightarrow> bool" where
  "answer_generator_call (E_get_anwer_openai q) = True"
| "answer_generator_call (E_ChatCompletion_create q) = True"
| "answer_generator_call e = False"

fun synthesizer_call :: "event \<Rightarrow> bool" where
  "synthesizer_call (E_text_to_audio t n) = True"
| "synthesizer_call e = False"

fun api_attempt :: "event \<Rightarrow> bool" where
  "api_attempt (E_ChatCompletion_create q) = True"
| "api_attempt e = False"

fun file_write :: "event \<Rightarrow> bool" where
  "file_write (E_file_save p) = True"
| "file_write e = False"

text \<open>
  What the process does not decide itself: the two credentials as they stand when the
  request runs, werkzeug's \<^verbatim>\<open>secure_filename\<close>, whether a write to a path fails, the reply
  of the transcription endpoint to \<^verbatim>\<open>requests.post(url, headers, data)\<close>, the outcome of
  \<^verbatim>\<open>openai.ChatCompletion.create\<close> for a question, the outcome of \<^verbatim>\<open>gTTS(text)\<close> followed
  by \<^verbatim>\<open>tts.save(out_path)\<close>, and the draws of \<^verbatim>\<open>random.choices\<close>.
\<close>

record http_reply =
  status_code :: nat
  json_value :: "json result"

text \<open>
  \<^verbatim>\<open>gTTS(text)\<close> followed by \<^verbatim>\<open>tts.save(out_path)\<close>. The constructor can raise, and so can the
  opening of the file: then nothing is written. \<^verbatim>\<open>save\<close> opens the file for writing before
  it fetches the speech, so a failure after that leaves the file with what was written so
  far (possibly nothing). Otherwise the file holds the speech.
\<close>

datatype gtts_outcome =
    Gtts_saved string
  | Gtts_raised py_exn "string option"

record env =
  openai_api_key :: "string option"
  HUGGING_FACE_API_KEY :: "string option"
  secure_filename :: "string \<Rightarrow> string"
  write_error :: "string \<Rightarrow> py_exn option"
  requests_post :: "string \<Rightarrow> string \<Rightarrow> string \<Rightarrow> http_reply result"
  ChatCompletion_create :: "json \<Rightarrow> json result"
  gTTS_save :: "string \<Rightarrow> string \<Rightarrow> gtts_outcome"
  random_draw :: "nat \<Rightarrow> nat"

text \<open>\<^verbatim>\<open>not key\<close> for a credential: it is \<^verbatim>\<open>None\<close> or the empty string.\<close>

definition key_unset :: "string option \<Rightarrow> bool" where
  "key_unset k = (\<not> truthy (of_opt k))"

text \<open>\<^verbatim>\<open>f.save(filepath)\<close>: writes the upload, or raises.\<close>

definition file_save :: "env \<Rightarrow> string \<Rightarrow> string \<Rightarrow> world \<Rightarrow> unit result \<times> world" where
  "file_save env path data w =
     (let w1 = emit (E_file_save path) w in
      case write_error env path of
        Some e \<Rightarrow> (Inl e, w1)
      | None \<Rightarrow> (Inr (), w1\<lparr>files := (files w1)(path \<mapsto> data)\<rparr>))"

text \<open>\<^verbatim>\<open>with open(filepath, "rb") as f: data = f.read()\<close>: raises when there is no such file.\<close>

definition open_read :: "string \<Rightarrow> world \<Rightarrow> string result \<times> world" where
  "open_read path w =
     (let w1 = emit (E_open_read path) w in
      case files w1 path of
        None \<Rightarrow> (Inl OSError, w1)
      | Some data \<Rightarrow> (Inr data, w1))"

section \<open>Answer Generator\<close>

definition msg_key_missing :: string where
  "msg_key_missing = ''OpenAI API key missing on server. Set OPENAI_API_KEY and restart the app.''"

definition msg_auth_failed :: string where
  "msg_auth_failed = ''OpenAI authentication failed. Check OPENAI_API_KEY on the server.''"

definition msg_api_error :: string where
  "msg_api_error = ''OpenAI API error. See server logs.''"

definition msg_unexpected :: string where
  "msg_unexpected = ''Unexpected server error while contacting OpenAI.''"

text \<open>\<^verbatim>\<open>x["key"]\<close>, \<^verbatim>\<open>x[0]\<close> and \<^verbatim>\<open>x.strip()\<close> on a parsed value.\<close>

fun subscript_key :: "json \<Rightarrow> string \<Rightarrow> json result" where
  "subscript_key (JObj kv) k = (case map_of kv k of None \<Rightarrow> Inl KeyError | Some v \<Rightarrow> Inr v)"
| "subscript_key v k = Inl TypeError"

fun subscript_idx :: "json \<Rightarrow> nat \<Rightarrow> json result" where
  "subscript_idx (JArr xs) i = py_index xs i"
| "subscript_idx (JStr s) i = (case py_index s i of Inl e \<Rightarrow> Inl e | Inr c \<Rightarrow> Inr (JStr [c]))"
| "subscript_idx (JObj kv) i = Inl KeyError"
| "subscript_idx v i = Inl TypeError"

text \<open>
  \<^verbatim>\<open>str.isspace\<close> on the code points a \<open>char\<close> can hold (those below 256): the ASCII
  white space, the separators 28 to 31, NEL (133) and the no-break space (160).
\<close>

definition is_space :: "char \<Rightarrow> bool" where
  "is_space c = (of_char c \<in> {9, 10, 11, 12, 13, 28, 29, 30, 31, 32, 133, 160 :: nat})"

definition py_strip :: "string \<Rightarrow> string" where
  "py_strip s = rev (dropWhile is_space (rev (dropWhile is_space s)))"

fun strip_method :: "json \<Rightarrow> string result" where
  "strip_method (JStr s) = Inr (py_strip s)"
| "strip_method v = Inl AttributeError"

definition and_then :: "'a result \<Rightarrow> ('a \<Rightarrow> 'b result) \<Rightarrow> 'b result" where
  "and_then r f = (case r of Inl e \<Rightarrow> Inl e | Inr v \<Rightarrow> f v)"

text \<open>
  The body of the \<^verbatim>\<open>try\<close>: one call of \<^verbatim>\<open>openai.ChatCompletion.create\<close>, then
  \<^verbatim>\<open>completion["choices"][0]["message"]["content"].strip()\<close>.
\<close>

definition get_anwer_openai_try :: "env \<Rightarrow> json \<Rightarrow> string result" where
  "get_anwer_openai_try env question =
     and_then (ChatCompletion_create env question) (\<lambda>completion.
     and_then (subscript_key completion ''choices'') (\<lambda>choices.
     and_then (subscript_idx choices 0) (\<lambda>choice.
     and_then (subscript_key choice ''message'') (\<lambda>message.
     and_then (subscript_key message ''content'') strip_method))))"

text \<open>The \<^verbatim>\<open>except\<close> clauses, in the order of the source.\<close>

fun get_anwer_openai_except :: "py_exn \<Rightarrow> string" where
  "get_anwer_openai_except (OpenAIError AuthenticationError) = msg_auth_failed"
| "get_anwer_openai_except (OpenAIError e) = msg_api_error"
| "get_anwer_openai_except e = msg_unexpected"

definition get_anwer_openai :: "env \<Rightarrow> json \<Rightarrow> world \<Rightarrow> string result \<times> world" where
  "get_anwer_openai env question w =
     (let w1 = emit (E_get_anwer_openai question) w in
      if key_unset (openai_api_key env) then (Inr msg_key_missing, w1)
      else
        (let w2 = emit (E_ChatCompletion_create question) w1 in
         case get_anwer_openai_try env question of
           Inr answer \<Rightarrow> (Inr answer, w2)
         | Inl e \<Rightarrow> (Inr (get_anwer_openai_except e), w2)))"

section \<open>Speech Synthesizer\<close>

text \<open>
  \<^verbatim>\<open>text_to_audio\<close>: the \<^verbatim>\<open>except\<close> clause logs and raises again, so a failure of
  \<^verbatim>\<open>gTTS\<close> leaves the function as an exception.
\<close>

definition speech_path :: "string \<Rightarrow> string" where
  "speech_path fname = ''static/audio/'' @ fname @ ''.mp3''"

definition text_to_audio :: "env \<Rightarrow> string \<Rightarrow> string \<Rightarrow> world \<Rightarrow> string result \<times> world" where
  "text_to_audio env text fname w =
     (let w1 = emit (E_text_to_audio text fname) w;
          out_path = speech_path fname
      in case gTTS_save env text out_path of
           Gtts_saved mp3 \<Rightarrow> (Inr out_path, w1\<lparr>files := (files w1)(out_path \<mapsto> mp3)\<rparr>)
         | Gtts_raised e None \<Rightarrow> (Inl e, w1)
         | Gtts_raised e (Some left) \<Rightarrow>
             (Inl e, w1\<lparr>files := (files w1)(out_path \<mapsto> left)\<rparr>))"

section \<open>Speech Transcriber\<close>

definition API_URL :: string where
  "API_URL = ''https://api-inference.huggingface.co/models/jonatasgrosman/wav2vec2-large-xlsr-53-english''"

definition msg_not_configured :: string where
  "msg_not_configured = ''Transcription service not configured.''"

definition msg_could_not_transcribe :: string where
  "msg_could_not_transcribe = ''Could not transcribe audio.''"

definition msg_transcription_failed :: string where
  "msg_transcription_failed = ''Audio transcription failed.''"

text \<open>\<^verbatim>\<open>response.raise_for_status()\<close> raises on a 4xx or 5xx status.\<close>

definition raise_for_status :: "http_reply \<Rightarrow> unit result" where
  "raise_for_status r =
     (if 400 \<le> status_code r \<and> status_code r < 600 then Inl RequestException else Inr ())"

text \<open>The body of the \<^verbatim>\<open>try\<close> in \<^verbatim>\<open>process_audio\<close>.\<close>

definition process_audio_try :: "env \<Rightarrow> string \<Rightarrow> string \<Rightarrow> json result" where
  "process_audio_try env key data =
     and_then (requests_post env API_URL (''Bearer '' @ key) data) (\<lambda>response.
     and_then (raise_for_status response) (\<lambda>u.
     and_then (json_value response) (\<lambda>d.
       let text = (case d of JObj kv \<Rightarrow> dict_get kv ''text'' | _ \<Rightarrow> JNull)
       in if \<not> truthy text then Inr (JStr msg_could_not_transcribe) else Inr text)))"

text \<open>The file is opened and read before the \<^verbatim>\<open>try\<close>: a failure there is not caught here.\<close>

definition process_audio :: "env \<Rightarrow> string \<Rightarrow> world \<Rightarrow> json result \<times> world" where
  "process_audio env filepath w =
     (let w1 = emit (E_process_audio filepath) w in
      case HUGGING_FACE_API_KEY env of
        None \<Rightarrow> (Inr (JStr msg_not_configured), w1)
      | Some key \<Rightarrow>
          if key = [] then (Inr (JStr msg_not_configured), w1)
          else
            (case open_read filepath w1 of
               (Inl e, w2) \<Rightarrow> (Inl e, w2)
             | (Inr data, w2) \<Rightarrow>
                 (let w3 = emit (E_requests_post API_URL data) w2 in
                  case process_audio_try env key data of
                    Inr text \<Rightarrow> (Inr text, w3)
                  | Inl e \<Rightarrow> (Inr (JStr msg_transcription_failed), w3))))"

section \<open>The text pipeline\<close>

definition token_alphabet :: string where
  "token_alphabet = ''ABCDEFGHIJKLMNOPQRSTUVWXYZ0123456789''"

text \<open>
  \<^verbatim>\<open>''.join(random.choices(string.ascii_uppercase + string.digits, k=8))\<close>: eight draws,
  each an index into the alphabet.
\<close>

definition random_token :: "env \<Rightarrow> string" where
  "random_token env =
     map (\<lambda>j. token_alphabet ! (random_draw env j mod length token_alphabet)) [0..<8]"

text \<open>\<^verbatim>\<open>url_for('static', filename=...)\<close> inside a request.\<close>

definition url_for_static :: "string \<Rightarrow> string" where
  "url_for_static fname = ''/static/'' @ fname"

text \<open>
  The body of the outer \<^verbatim>\<open>try\<close> of \<^verbatim>\<open>process_text\<close>. The answer is a \<^verbatim>\<open>str\<close> already, so
  the \<^verbatim>\<open>isinstance\<close> test changes nothing. The inner \<^verbatim>\<open>try\<close> turns a failure of
  \<^verbatim>\<open>text_to_audio\<close> into an empty \<open>voice\<close>.
\<close>

definition process_text_try ::
  "env \<Rightarrow> json \<Rightarrow> world \<Rightarrow> (string \<times> json) list result \<times> world" where
  "process_text_try env text w =
     (case get_anwer_openai env text w of
        (Inl e, w1) \<Rightarrow> (Inl e, w1)
      | (Inr return_text, w1) \<Rightarrow>
          (let res = random_token env in
           case text_to_audio env return_text res w1 of
             (Inr out_path, w2) \<Rightarrow>
               (Inr [(''text'', JStr return_text),
                     (''voice'', JStr (url_for_static (''audio/'' @ res @ ''.mp3'')))], w2)
           | (Inl e, w2) \<Rightarrow>
               (Inr [(''text'', JStr return_text), (''voice'', JStr [])], w2)))"

definition msg_server_error :: string where
  "msg_server_error = ''Server error processing request. Check server logs.''"

definition process_text ::
  "env \<Rightarrow> json \<Rightarrow> world \<Rightarrow> (string \<times> json) list result \<times> world" where
  "process_text env text w =
     (case process_text_try env text w of
        (Inr response, w1) \<Rightarrow> (Inr response, w1)
      | (Inl e, w1) \<Rightarrow>
          (Inr [(''text'', JStr msg_server_error), (''voice'', JStr [])], w1))"

section \<open>Request Dispatcher\<close>

text \<open>
  A request has one content type. \<^verbatim>\<open>request.files\<close> holds parts of a multipart body only,
  \<^verbatim>\<open>request.form\<close> the fields of a multipart or url-encoded body, and
  \<^verbatim>\<open>request.get_json(silent=True)\<close> is \<^verbatim>\<open>None\<close> unless the body is JSON that parses.
\<close>

record file_storage =
  filename :: string
  content :: string

datatype request =
    Multipart "file_storage option" "string option"
  | Form_urlencoded "string option"
  | Json_body json
  | No_body

fun files_audio :: "request \<Rightarrow> file_storage option" where
  "files_audio (Multipart a t) = a"
| "files_audio r = None"

fun form_text :: "request \<Rightarrow> string option" where
  "form_text (Multipart a t) = t"
| "form_text (Form_urlencoded t) = t"
| "form_text r = None"

fun get_json_silent :: "request \<Rightarrow> json" where
  "get_json_silent (Json_body j) = j"
| "get_json_silent r = JNull"

record http_response =
  http_status :: nat
  json_body :: "(string \<times> json) list"

definition jsonify :: "(string \<times> json) list \<Rightarrow> nat \<Rightarrow> http_response" where
  "jsonify d code = \<lparr>http_status = code, json_body = d\<rparr>"

definition UPLOAD_FOLDER :: string where
  "UPLOAD_FOLDER = ''uploads''"

text \<open>\<^verbatim>\<open>os.path.join(a, b)\<close> on POSIX.\<close>

definition os_path_join :: "string \<Rightarrow> string \<Rightarrow> string" where
  "os_path_join a b =
     (if b \<noteq> [] \<and> hd b = CHR ''/'' then b
      else if a = [] \<or> last a = CHR ''/'' then a @ b
      else a @ ''/'' @ b)"

text \<open>
  \<^verbatim>\<open>request.form.get('text') or (request.get_json(silent=True) or {}).get('text')\<close>:
  \<^verbatim>\<open>.get\<close> on a parsed body that is truthy and not a dictionary raises
  \<^verbatim>\<open>AttributeError\<close>.
\<close>

definition request_text :: "request \<Rightarrow> json result" where
  "request_text req =
     (let form = of_opt (form_text req) in
      if truthy form then Inr form
      else
        (let j = get_json_silent req;
             payload = (if truthy j then j else JObj [])
         in case payload of
              JObj kv \<Rightarrow> Inr (dict_get kv ''text'')
            | _ \<Rightarrow> Inl AttributeError))"

text \<open>The lines of \<^verbatim>\<open>chat\<close> after the audio branch: the text pipeline, or the 400.\<close>

definition chat_text :: "env \<Rightarrow> request \<Rightarrow> world \<Rightarrow> http_response result \<times> world" where
  "chat_text env req w =
     (case request_text req of
        Inl e \<Rightarrow> (Inl e, w)
      | Inr text \<Rightarrow>
          if truthy text then
            (case process_text env text w of
               (Inl e, w1) \<Rightarrow> (Inl e, w1)
             | (Inr response, w1) \<Rightarrow> (Inr (jsonify response 200), w1))
          else (Inr (jsonify [(''text'', JStr ''Invalid request'')] 400), w))"

text \<open>The audio branch: sanitise the name, save the upload, transcribe, return.\<close>

definition upload_path :: "env \<Rightarrow> file_storage \<Rightarrow> string" where
  "upload_path env f = os_path_join UPLOAD_FOLDER (secure_filename env (filename f))"

definition chat_audio :: "env \<Rightarrow> file_storage \<Rightarrow> world \<Rightarrow> http_response result \<times> world" where
  "chat_audio env f w =
     (let filepath = upload_path env f in
      case file_save env filepath (content f) w of
        (Inl e, w1) \<Rightarrow> (Inl e, w1)
      | (Inr u, w1) \<Rightarrow>
          (case process_audio env filepath w1 of
             (Inl e, w2) \<Rightarrow> (Inl e, w2)
           | (Inr transcription, w2) \<Rightarrow>
               (Inr (jsonify [(''text'', transcription)] 200), w2)))"

text \<open>
  The body of the \<^verbatim>\<open>try\<close> of \<^verbatim>\<open>chat\<close>. A \<^verbatim>\<open>FileStorage\<close> is truthy when its filename is
  not empty, and \<^verbatim>\<open>and\<close> does not evaluate \<^verbatim>\<open>allowed_file\<close> otherwise.
\<close>

definition chat_try :: "env \<Rightarrow> request \<Rightarrow> world \<Rightarrow> http_response result \<times> world" where
  "chat_try env req w =
     (case files_audio req of
        None \<Rightarrow> chat_text env req w
      | Some f \<Rightarrow>
          if filename f = [] then chat_text env req w
          else
            (case allowed_file (filename f) of
               Inl e \<Rightarrow> (Inl e, w)
             | Inr ok \<Rightarrow> if ok then chat_audio env f w else chat_text env req w))"

text \<open>\<^verbatim>\<open>chat\<close>: the \<^verbatim>\<open>except Exception\<close> clause answers 500.\<close>

definition chat :: "env \<Rightarrow> request \<Rightarrow> world \<Rightarrow> http_response result \<times> world" where
  "chat env req w =
     (case chat_try env req w of
        (Inr r, w1) \<Rightarrow> (Inr r, w1)
      | (Inl e, w1) \<Rightarrow> (Inr (jsonify [(''text'', JStr ''Internal server error'')] 500), w1))"

section \<open>What a run of the text pipeline returns and calls\<close>

text \<open>The answer \<open>get_anwer_openai\<close> returns, and the calls of the text pipeline.\<close>

definition answer_of :: "env \<Rightarrow> json \<Rightarrow> string" where
  "answer_of env q =
     (if key_unset (openai_api_key env) then msg_key_missing
      else (case get_anwer_openai_try env q of
              Inr a \<Rightarrow> a
            | Inl e \<Rightarrow> get_anwer_openai_except e))"

definition pipeline_calls :: "env \<Rightarrow> json \<Rightarrow> event list" where
  "pipeline_calls env q =
     E_get_anwer_openai q #
     (if key_unset (openai_api_key env) then [] else [E_ChatCompletion_create q]) @
     [E_text_to_audio (answer_of env q) (random_token env)]"

section \<open>An example environment\<close>

text \<open>
  Both credentials set, every write succeeding, the transcription endpoint answering with
  the text \<open>hello\<close>, the completion endpoint answering \<open>Apply fungicide X\<close>, speech
  synthesis succeeding. Its sanitiser keeps letters, digits, dots, dashes and underscores,
  as \<^verbatim>\<open>secure_filename\<close> does on names made of those that neither start nor end with a
  dot or an underscore.
\<close>

definition keep_char :: "char \<Rightarrow> bool" where
  "keep_char c =
     (let n = (of_char c :: nat) in
      (48 \<le> n \<and> n \<le> 57) \<or> (65 \<le> n \<and> n \<le> 90) \<or> (97 \<le> n \<and> n \<le> 122) \<or>
      n = 45 \<or> n = 46 \<or> n = 95)"

definition example_completion :: json where
  "example_completion =
     JObj [(''choices'',
       JArr [JObj [(''message'', JObj [(''content'', JStr ''Apply fungicide X '')])]])]"

definition example_env :: env where
  "example_env =
     \<lparr>openai_api_key = Some ''sk-test'',
      HUGGING_FACE_API_KEY = Some ''hf-test'',
      secure_filename = filter keep_char,
      write_error = (\<lambda>p. None),
      requests_post = (\<lambda>url auth data.
        Inr \<lparr>status_code = 200, json_value = Inr (JObj [(''text'', JStr ''hello'')])\<rparr>),
      ChatCompletion_create = (\<lambda>q. Inr example_completion),
      gTTS_save = (\<lambda>text path. Gtts_saved ''mp3''),
      random_draw = (\<lambda>j. j)\<rparr>"

definition empty_world :: world where
  "empty_world = \<lparr>files = (\<lambda>p. None), trace = []\<rparr>"

section \<open>Properties of the allow-list check\<close>

lemma rsplit1_decompose:
  assumes "sep \<in> set s"
  shows "s = rev (tl (dropWhile (\<lambda>c. c \<noteq> sep) (rev s))) @ sep #
             rev (takeWhile (\<lambda>c. c \<noteq> sep) (rev s))"
proof -
  let ?r = "rev s"
  from assms have "sep \<in> set ?r" by simp
  then have ne: "dropWhile (\<lambda>c. c \<noteq> sep) ?r \<noteq> []"
    by (simp add: dropWhile_eq_Nil_conv)
  then have hd: "hd (dropWhile (\<lambda>c. c \<noteq> sep) ?r) = sep"
    using hd_dropWhile [of "\<lambda>c. c \<noteq> sep" ?r] by simp
  have "?r = takeWhile (\<lambda>c. c \<noteq> sep) ?r @ dropWhile (\<lambda>c. c \<noteq> sep) ?r"
    by simp
  also have "dropWhile (\<lambda>c. c \<noteq> sep) ?r = sep # tl (dropWhile (\<lambda>c. c \<noteq> sep) ?r)"
    using ne hd by (cases "dropWhile (\<lambda>c. c \<noteq> sep) ?r") auto
  finally have "rev ?r = rev (takeWhile (\<lambda>c. c \<noteq> sep) ?r @
                  sep # tl (dropWhile (\<lambda>c. c \<noteq> sep) ?r))"
    by simp
  then show ?thesis by simp
qed

lemma rsplit1_suffix_free:
  "sep \<notin> set (rev (takeWhile (\<lambda>c. c \<noteq> sep) (rev s)))"
  using set_takeWhileD [of sep "\<lambda>c. c \<noteq> sep" "rev s"] by auto

lemma first_sep_unique:
  "xs @ sep # ys = xs' @ sep # ys' \<Longrightarrow> sep \<notin> set xs \<Longrightarrow> sep \<notin> set xs' \<Longrightarrow> xs = xs'"
proof (induction xs arbitrary: xs')
  case Nil
  then show ?case by (cases xs') auto
next
  case (Cons x xs)
  then show ?case by (cases xs') auto
qed

lemma last_sep_unique:
  assumes "pre @ sep # ext = pre' @ sep # ext'"
    and "sep \<notin> set ext" and "sep \<notin> set ext'"
  shows "ext = ext'"
proof -
  from assms(1) have "rev (pre @ sep # ext) = rev (pre' @ sep # ext')"
    by simp
  then have "rev ext @ sep # rev pre = rev ext' @ sep # rev pre'"
    by simp
  moreover have "sep \<notin> set (rev ext)" "sep \<notin> set (rev ext')"
    using assms(2,3) by simp_all
  ultimately have "rev ext = rev ext'"
    by (rule first_sep_unique)
  then show ?thesis by simp
qed

lemma allowed_file_after_last_dot:
  assumes "fname = pre @ CHR ''.'' # ext" and "CHR ''.'' \<notin> set ext"
  shows "allowed_file fname = Inr (py_lower ext \<in> ALLOWED_EXTENSIONS)"
proof -
  have dot: "CHR ''.'' \<in> set fname" using assms(1) by simp
  let ?ext = "rev (takeWhile (\<lambda>c. c \<noteq> CHR ''.'') (rev fname))"
  have "pre @ CHR ''.'' # ext = fname"
    using assms(1) by (rule sym)
  also have "fname = rev (tl (dropWhile (\<lambda>c. c \<noteq> CHR ''.'') (rev fname))) @ CHR ''.'' # ?ext"
    by (rule rsplit1_decompose [OF dot])
  finally have "ext = ?ext"
    using assms(2) rsplit1_suffix_free [of "CHR ''.''" fname] by (rule last_sep_unique)
  then show ?thesis
    using dot by (simp add: allowed_file_def rsplit1_def py_index_def)
qed

lemma allowed_file_no_dot:
  "CHR ''.'' \<notin> set fname \<Longrightarrow> allowed_file fname = Inr False"
  by (simp add: allowed_file_def)

lemma py_lower_webm: "py_lower ''webm'' = ''webm''"
  by (simp add: py_lower_def py_lower_char_def)

lemma allowed_file_last_segment:
  "allowed_file fname =
     Inr (\<exists>pre ext. fname = pre @ CHR ''.'' # ext \<and> CHR ''.'' \<notin> set ext \<and>
            py_lower ext \<in> {''webm''})"
proof (cases "CHR ''.'' \<in> set fname")
  case True
  let ?pre = "rev (tl (dropWhile (\<lambda>c. c \<noteq> CHR ''.'') (rev fname)))"
  let ?ext = "rev (takeWhile (\<lambda>c. c \<noteq> CHR ''.'') (rev fname))"
  have dec: "fname = ?pre @ CHR ''.'' # ?ext"
    by (rule rsplit1_decompose [OF True])
  have free: "CHR ''.'' \<notin> set ?ext"
    by (rule rsplit1_suffix_free)
  have val: "allowed_file fname = Inr (py_lower ?ext \<in> ALLOWED_EXTENSIONS)"
    by (rule allowed_file_after_last_dot [OF dec free])
  have "(\<exists>pre ext. fname = pre @ CHR ''.'' # ext \<and> CHR ''.'' \<notin> set ext \<and>
          py_lower ext \<in> {''webm''}) = (py_lower ?ext \<in> {''webm''})"
  proof
    assume "\<exists>pre ext. fname = pre @ CHR ''.'' # ext \<and> CHR ''.'' \<notin> set ext \<and>
          py_lower ext \<in> {''webm''}"
    then obtain pre ext where e: "fname = pre @ CHR ''.'' # ext"
      "CHR ''.'' \<notin> set ext" "py_lower ext \<in> {''webm''}" by blast
    have "pre @ CHR ''.'' # ext = fname" using e(1) by (rule sym)
    also note dec
    finally have "ext = ?ext" using e(2) free by (rule last_sep_unique)
    with e(3) show "py_lower ?ext \<in> {''webm''}" by simp
  next
    assume "py_lower ?ext \<in> {''webm''}"
    with dec free show "\<exists>pre ext. fname = pre @ CHR ''.'' # ext \<and>
          CHR ''.'' \<notin> set ext \<and> py_lower ext \<in> {''webm''}" by blast
  qed
  with val show ?thesis by (simp add: ALLOWED_EXTENSIONS_def)
next
  case False
  then have "\<not> (\<exists>pre ext. fname = pre @ CHR ''.'' # ext \<and> CHR ''.'' \<notin> set ext \<and>
          py_lower ext \<in> {''webm''})" by auto
  with False show ?thesis by (simp add: allowed_file_no_dot)
qed

text \<open>
  What lowercasing does, letter by letter: a character lowers to a given lowercase letter
  exactly when it is that letter or its capital.
\<close>

lemma py_lower_char_eq:
  assumes "(97::nat) \<le> of_char d" and "of_char d \<le> (122::nat)"
  shows "(py_lower_char c = d) = (c = d \<or> of_char c + 32 = (of_char d :: nat))"
proof (cases "(65::nat) \<le> of_char c \<and> of_char c \<le> (90::nat)")
  case True
  then have "py_lower_char c = char_of (of_char c + (32::nat))"
    by (simp add: py_lower_char_def)
  moreover have "(char_of (of_char c + (32::nat)) = d)
      = ((of_char c + 32) mod 256 = (of_char d :: nat))"
    by (metis of_char_of char_of_char char_of_mod_256)
  moreover have "(of_char c + 32) mod 256 = (of_char c + 32 :: nat)"
    using True by simp
  moreover have "c \<noteq> d" using True assms by auto
  ultimately show ?thesis by simp
next
  case False
  then have "py_lower_char c = c" by (auto simp add: py_lower_char_def)
  moreover have "of_char c + 32 \<noteq> (of_char d :: nat)" using False assms by auto
  ultimately show ?thesis by auto
qed

lemma py_lower_char_w: "(py_lower_char c = CHR ''w'') = (c \<in> {CHR ''w'', CHR ''W''})"
proof -
  have "(of_char c + 32 = (of_char (CHR ''w'') :: nat))
      = ((of_char c :: nat) = of_char (CHR ''W''))"
    by simp
  then show ?thesis
    using py_lower_char_eq [of "CHR ''w''" c]
    by (auto simp only: of_char_eq_iff insert_iff empty_iff) simp_all
qed

lemma py_lower_char_e: "(py_lower_char c = CHR ''e'') = (c \<in> {CHR ''e'', CHR ''E''})"
proof -
  have "(of_char c + 32 = (of_char (CHR ''e'') :: nat))
      = ((of_char c :: nat) = of_char (CHR ''E''))"
    by simp
  then show ?thesis
    using py_lower_char_eq [of "CHR ''e''" c]
    by (auto simp only: of_char_eq_iff insert_iff empty_iff) simp_all
qed

lemma py_lower_char_b: "(py_lower_char c = CHR ''b'') = (c \<in> {CHR ''b'', CHR ''B''})"
proof -
  have "(of_char c + 32 = (of_char (CHR ''b'') :: nat))
      = ((of_char c :: nat) = of_char (CHR ''B''))"
    by simp
  then show ?thesis
    using py_lower_char_eq [of "CHR ''b''" c]
    by (auto simp only: of_char_eq_iff insert_iff empty_iff) simp_all
qed

lemma py_lower_char_m: "(py_lower_char c = CHR ''m'') = (c \<in> {CHR ''m'', CHR ''M''})"
proof -
  have "(of_char c + 32 = (of_char (CHR ''m'') :: nat))
      = ((of_char c :: nat) = of_char (CHR ''M''))"
    by simp
  then show ?thesis
    using py_lower_char_eq [of "CHR ''m''" c]
    by (auto simp only: of_char_eq_iff insert_iff empty_iff) simp_all
qed

lemma py_lower_is_webm:
  "(py_lower ext = ''webm'') =
     (\<exists>c1 c2 c3 c4. ext = [c1, c2, c3, c4] \<and>
        c1 \<in> {CHR ''w'', CHR ''W''} \<and> c2 \<in> {CHR ''e'', CHR ''E''} \<and>
        c3 \<in> {CHR ''b'', CHR ''B''} \<and> c4 \<in> {CHR ''m'', CHR ''M''})"
proof
  assume "py_lower ext = ''webm''"
  then obtain c1 c2 c3 c4 where "ext = [c1, c2, c3, c4]"
    "py_lower_char c1 = CHR ''w''" "py_lower_char c2 = CHR ''e''"
    "py_lower_char c3 = CHR ''b''" "py_lower_char c4 = CHR ''m''"
    by (auto simp add: py_lower_def map_eq_Cons_conv)
  then show "\<exists>c1 c2 c3 c4. ext = [c1, c2, c3, c4] \<and>
        c1 \<in> {CHR ''w'', CHR ''W''} \<and> c2 \<in> {CHR ''e'', CHR ''E''} \<and>
        c3 \<in> {CHR ''b'', CHR ''B''} \<and> c4 \<in> {CHR ''m'', CHR ''M''}"
    by (simp only: py_lower_char_w py_lower_char_e py_lower_char_b py_lower_char_m) blast
next
  assume "\<exists>c1 c2 c3 c4. ext = [c1, c2, c3, c4] \<and>
        c1 \<in> {CHR ''w'', CHR ''W''} \<and> c2 \<in> {CHR ''e'', CHR ''E''} \<and>
        c3 \<in> {CHR ''b'', CHR ''B''} \<and> c4 \<in> {CHR ''m'', CHR ''M''}"
  then obtain c1 c2 c3 c4 where "ext = [c1, c2, c3, c4]"
    "py_lower_char c1 = CHR ''w''" "py_lower_char c2 = CHR ''e''"
    "py_lower_char c3 = CHR ''b''" "py_lower_char c4 = CHR ''m''"
    by (simp only: py_lower_char_w py_lower_char_e py_lower_char_b py_lower_char_m) blast
  then show "py_lower ext = ''webm''"
    by (simp add: py_lower_def)
qed

lemma allowed_file_case_variants:
  "allowed_file fname =
     Inr (\<exists>pre c1 c2 c3 c4. fname = pre @ CHR ''.'' # [c1, c2, c3, c4] \<and>
            c1 \<in> {CHR ''w'', CHR ''W''} \<and> c2 \<in> {CHR ''e'', CHR ''E''} \<and>
            c3 \<in> {CHR ''b'', CHR ''B''} \<and> c4 \<in> {CHR ''m'', CHR ''M''})"
proof -
  have "(\<exists>pre ext. fname = pre @ CHR ''.'' # ext \<and> CHR ''.'' \<notin> set ext \<and>
            py_lower ext \<in> {''webm''})
      = (\<exists>pre c1 c2 c3 c4. fname = pre @ CHR ''.'' # [c1, c2, c3, c4] \<and>
            c1 \<in> {CHR ''w'', CHR ''W''} \<and> c2 \<in> {CHR ''e'', CHR ''E''} \<and>
            c3 \<in> {CHR ''b'', CHR ''B''} \<and> c4 \<in> {CHR ''m'', CHR ''M''})"
  proof
    assume "\<exists>pre ext. fname = pre @ CHR ''.'' # ext \<and> CHR ''.'' \<notin> set ext \<and>
            py_lower ext \<in> {''webm''}"
    then obtain pre ext where e: "fname = pre @ CHR ''.'' # ext" "py_lower ext = ''webm''"
      by auto
    from e(2) obtain c1 c2 c3 c4 where "ext = [c1, c2, c3, c4]"
      "c1 \<in> {CHR ''w'', CHR ''W''}" "c2 \<in> {CHR ''e'', CHR ''E''}"
      "c3 \<in> {CHR ''b'', CHR ''B''}" "c4 \<in> {CHR ''m'', CHR ''M''}"
      unfolding py_lower_is_webm by blast
    with e(1) show "\<exists>pre c1 c2 c3 c4. fname = pre @ CHR ''.'' # [c1, c2, c3, c4] \<and>
            c1 \<in> {CHR ''w'', CHR ''W''} \<and> c2 \<in> {CHR ''e'', CHR ''E''} \<and>
            c3 \<in> {CHR ''b'', CHR ''B''} \<and> c4 \<in> {CHR ''m'', CHR ''M''}"
      by blast
  next
    assume "\<exists>pre c1 c2 c3 c4. fname = pre @ CHR ''.'' # [c1, c2, c3, c4] \<and>
            c1 \<in> {CHR ''w'', CHR ''W''} \<and> c2 \<in> {CHR ''e'', CHR ''E''} \<and>
            c3 \<in> {CHR ''b'', CHR ''B''} \<and> c4 \<in> {CHR ''m'', CHR ''M''}"
    then obtain pre c1 c2 c3 c4 where v: "fname = pre @ CHR ''.'' # [c1, c2, c3, c4]"
      "c1 \<in> {CHR ''w'', CHR ''W''}" "c2 \<in> {CHR ''e'', CHR ''E''}"
      "c3 \<in> {CHR ''b'', CHR ''B''}" "c4 \<in> {CHR ''m'', CHR ''M''}"
      by blast
    from v(2-5) have "py_lower [c1, c2, c3, c4] = ''webm''"
      unfolding py_lower_is_webm by blast
    moreover from v(2-5) have "CHR ''.'' \<notin> set [c1, c2, c3, c4]"
      by auto
    ultimately show "\<exists>pre ext. fname = pre @ CHR ''.'' # ext \<and> CHR ''.'' \<notin> set ext \<and>
            py_lower ext \<in> {''webm''}"
      using v(1) by blast
  qed
  then show ?thesis by (simp only: allowed_file_last_segment)
qed

text \<open>
  Claim C10. For every filename, \<open>allowed_file\<close> returns (it never raises) and its value
  is true exactly when the filename contains a dot and the part after its last dot,
  lowercased, is \<open>webm\<close>. Lowercasing is spelled out: the part after the last dot is one
  of the sixteen spellings of \<open>webm\<close> in upper and lower case, so \<open>clip.WEBM\<close> and
  \<open>clip.WebM\<close> are accepted. Only the final dot-separated segment is inspected: the
  multi-extension name \<open>clip.exe.webm\<close> is accepted, \<open>clip.webm.exe\<close>, \<open>clip.exe\<close> and
  \<open>noext\<close> are not.
\<close>

theorem allowed_file_iff_last_extension:
  "allowed_file fname =
     Inr (\<exists>pre ext. fname = pre @ CHR ''.'' # ext \<and> CHR ''.'' \<notin> set ext \<and>
            py_lower ext \<in> {''webm''})
   \<and> allowed_file fname =
     Inr (\<exists>pre c1 c2 c3 c4. fname = pre @ CHR ''.'' # [c1, c2, c3, c4] \<and>
            c1 \<in> {CHR ''w'', CHR ''W''} \<and> c2 \<in> {CHR ''e'', CHR ''E''} \<and>
            c3 \<in> {CHR ''b'', CHR ''B''} \<and> c4 \<in> {CHR ''m'', CHR ''M''})
   \<and> allowed_file ''clip.exe.webm'' = Inr True
   \<and> allowed_file ''clip.webm'' = Inr True
   \<and> allowed_file ''clip.WEBM'' = Inr True
   \<and> allowed_file ''clip.WebM'' = Inr True
   \<and> allowed_file ''clip.webm.exe'' = Inr False
   \<and> allowed_file ''clip.exe'' = Inr False
   \<and> allowed_file ''noext'' = Inr False"
proof -
  have 1: "allowed_file ''clip.exe.webm'' = Inr True" by code_simp
  have 2: "allowed_file ''clip.webm'' = Inr True" by code_simp
  have 3: "allowed_file ''clip.WEBM'' = Inr True" by code_simp
  have 4: "allowed_file ''clip.WebM'' = Inr True" by code_simp
  have 5: "allowed_file ''clip.webm.exe'' = Inr False" by code_simp
  have 6: "allowed_file ''clip.exe'' = Inr False" by code_simp
  have 7: "allowed_file ''noext'' = Inr False" by code_simp
  from allowed_file_last_segment [of fname] allowed_file_case_variants [of fname]
    1 2 3 4 5 6 7
  show ?thesis by (intro conjI)
qed

section \<open>How each component runs\<close>

lemma calls_since_append:
  "trace w' = trace w @ evs \<Longrightarrow> calls_since w w' = evs"
  by (simp add: calls_since_def)

lemma key_unset_iff: "key_unset k = (k = None \<or> k = Some [])"
  by (cases k) (simp_all add: key_unset_def)

lemma get_anwer_openai_run:
  "get_anwer_openai env q w =
     (if key_unset (openai_api_key env)
      then (Inr msg_key_missing, w\<lparr>trace := trace w @ [E_get_anwer_openai q]\<rparr>)
      else (Inr (case get_anwer_openai_try env q of
                   Inr a \<Rightarrow> a
                 | Inl e \<Rightarrow> get_anwer_openai_except e),
            w\<lparr>trace := trace w @ [E_get_anwer_openai q, E_ChatCompletion_create q]\<rparr>))"
  by (simp add: get_anwer_openai_def emit_def Let_def split: sum.splits)

lemma text_to_audio_run:
  "text_to_audio env t n w =
     (case gTTS_save env t (speech_path n) of
        Gtts_saved mp3 \<Rightarrow> (Inr (speech_path n),
          w\<lparr>trace := trace w @ [E_text_to_audio t n],
             files := (files w)(speech_path n \<mapsto> mp3)\<rparr>)
      | Gtts_raised e None \<Rightarrow> (Inl e, w\<lparr>trace := trace w @ [E_text_to_audio t n]\<rparr>)
      | Gtts_raised e (Some left) \<Rightarrow> (Inl e,
          w\<lparr>trace := trace w @ [E_text_to_audio t n],
             files := (files w)(speech_path n \<mapsto> left)\<rparr>))"
  by (simp add: text_to_audio_def emit_def Let_def split: gtts_outcome.splits option.splits)

lemma get_anwer_openai_answer:
  "fst (get_anwer_openai env q w) = Inr (answer_of env q)"
  by (simp add: get_anwer_openai_run answer_of_def)

lemma process_text_run:
  "process_text env q w =
     (case gTTS_save env (answer_of env q) (speech_path (random_token env)) of
        Gtts_saved mp3 \<Rightarrow>
          (Inr [(''text'', JStr (answer_of env q)),
                (''voice'', JStr (url_for_static (''audio/'' @ random_token env @ ''.mp3'')))],
           w\<lparr>trace := trace w @ pipeline_calls env q,
              files := (files w)(speech_path (random_token env) \<mapsto> mp3)\<rparr>)
      | Gtts_raised e None \<Rightarrow>
          (Inr [(''text'', JStr (answer_of env q)), (''voice'', JStr [])],
           w\<lparr>trace := trace w @ pipeline_calls env q\<rparr>)
      | Gtts_raised e (Some left) \<Rightarrow>
          (Inr [(''text'', JStr (answer_of env q)), (''voice'', JStr [])],
           w\<lparr>trace := trace w @ pipeline_calls env q,
              files := (files w)(speech_path (random_token env) \<mapsto> left)\<rparr>))"
  by (simp add: process_text_def process_text_try_def get_anwer_openai_run text_to_audio_run
      answer_of_def pipeline_calls_def Let_def split: gtts_outcome.splits option.splits)

lemma process_text_returns:
  "\<exists>response w1. process_text env q w = (Inr response, w1) \<and>
      trace w1 = trace w @ pipeline_calls env q"
  by (simp add: process_text_run split: gtts_outcome.splits option.splits)



lemma process_audio_unset:
  "key_unset (HUGGING_FACE_API_KEY env) \<Longrightarrow>
   process_audio env p w =
     (Inr (JStr msg_not_configured), w\<lparr>trace := trace w @ [E_process_audio p]\<rparr>)"
  by (auto simp add: key_unset_iff process_audio_def emit_def Let_def)

lemma process_audio_missing_file:
  "HUGGING_FACE_API_KEY env = Some key \<Longrightarrow> key \<noteq> [] \<Longrightarrow> files w p = None \<Longrightarrow>
   process_audio env p w =
     (Inl OSError, w\<lparr>trace := trace w @ [E_process_audio p, E_open_read p]\<rparr>)"
  by (simp add: process_audio_def open_read_def emit_def Let_def)

lemma process_audio_readable:
  "HUGGING_FACE_API_KEY env = Some key \<Longrightarrow> key \<noteq> [] \<Longrightarrow> files w p = Some data \<Longrightarrow>
   process_audio env p w =
     (Inr (case process_audio_try env key data of
             Inr text \<Rightarrow> text
           | Inl e \<Rightarrow> JStr msg_transcription_failed),
      w\<lparr>trace := trace w @ [E_process_audio p, E_open_read p, E_requests_post API_URL data]\<rparr>)"
  by (simp add: process_audio_def open_read_def emit_def Let_def split: sum.splits)

lemma process_audio_calls:
  "\<exists>evs. trace (snd (process_audio env p w)) = trace w @ evs \<and>
      filter answer_generator_call evs = [] \<and> filter synthesizer_call evs = [] \<and>
      filter file_write evs = [] \<and> files (snd (process_audio env p w)) = files w"
proof (cases "key_unset (HUGGING_FACE_API_KEY env)")
  case True
  then show ?thesis by (simp add: process_audio_unset)
next
  case False
  then obtain key where key: "HUGGING_FACE_API_KEY env = Some key" "key \<noteq> []"
    by (auto simp add: key_unset_iff)
  show ?thesis
  proof (cases "files w p")
    case None
    then show ?thesis by (simp add: process_audio_missing_file [OF key])
  next
    case (Some data)
    then show ?thesis by (simp add: process_audio_readable [OF key])
  qed
qed

lemma process_audio_after_save:
  assumes "files w p = Some data"
  shows "\<exists>transcription w2. process_audio env p w = (Inr transcription, w2)"
proof (cases "key_unset (HUGGING_FACE_API_KEY env)")
  case True
  then show ?thesis by (simp add: process_audio_unset)
next
  case False
  then obtain key where key: "HUGGING_FACE_API_KEY env = Some key" "key \<noteq> []"
    by (auto simp add: key_unset_iff)
  show ?thesis by (simp add: process_audio_readable [OF key assms])
qed

lemma file_save_run:
  "file_save env p data w =
     (case write_error env p of
        Some e \<Rightarrow> (Inl e, w\<lparr>trace := trace w @ [E_file_save p]\<rparr>)
      | None \<Rightarrow> (Inr (), w\<lparr>trace := trace w @ [E_file_save p],
                            files := (files w)(p \<mapsto> data)\<rparr>))"
  by (simp add: file_save_def emit_def Let_def split: option.splits)

text \<open>The audio branch: its calls start with the save, and none is of the text pipeline.\<close>

lemma chat_audio_calls:
  "\<exists>evs. trace (snd (chat_audio env f w)) = trace w @ E_file_save (upload_path env f) # evs \<and>
      filter answer_generator_call evs = [] \<and> filter synthesizer_call evs = [] \<and>
      filter file_write evs = [] \<and>
      (\<forall>p. p \<noteq> upload_path env f \<longrightarrow> files (snd (chat_audio env f w)) p = files w p)"
proof (cases "write_error env (upload_path env f)")
  case (Some e)
  then show ?thesis by (simp add: chat_audio_def file_save_run Let_def)
next
  case None
  let ?w1 = "w\<lparr>trace := trace w @ [E_file_save (upload_path env f)],
               files := (files w)(upload_path env f \<mapsto> content f)\<rparr>"
  obtain evs where evs: "trace (snd (process_audio env (upload_path env f) ?w1)) = trace ?w1 @ evs"
    "filter answer_generator_call evs = []" "filter synthesizer_call evs = []"
    "filter file_write evs = []"
    "files (snd (process_audio env (upload_path env f) ?w1)) = files ?w1"
    using process_audio_calls [of env "upload_path env f" ?w1] by blast
  have "snd (chat_audio env f w) = snd (process_audio env (upload_path env f) ?w1)"
    using None by (simp add: chat_audio_def file_save_run Let_def split: prod.splits sum.splits)
  with evs show ?thesis by simp
qed

lemma chat_audio_saved:
  assumes "write_error env (upload_path env f) = None"
  shows "\<exists>transcription w1 w2.
           file_save env (upload_path env f) (content f) w = (Inr (), w1) \<and>
           files w1 (upload_path env f) = Some (content f) \<and>
           process_audio env (upload_path env f) w1 = (Inr transcription, w2) \<and>
           chat_audio env f w = (Inr (jsonify [(''text'', transcription)] 200), w2)"
proof -
  let ?w1 = "w\<lparr>trace := trace w @ [E_file_save (upload_path env f)],
               files := (files w)(upload_path env f \<mapsto> content f)\<rparr>"
  have save: "file_save env (upload_path env f) (content f) w = (Inr (), ?w1)"
    using assms by (simp add: file_save_run)
  have there: "files ?w1 (upload_path env f) = Some (content f)" by simp
  obtain transcription w2
    where tr: "process_audio env (upload_path env f) ?w1 = (Inr transcription, w2)"
    using process_audio_after_save [OF there] by blast
  have "chat_audio env f w = (Inr (jsonify [(''text'', transcription)] 200), w2)"
    using save tr by (simp add: chat_audio_def Let_def)
  with save there tr show ?thesis by blast
qed

lemma chat_try_allowed:
  "files_audio req = Some f \<Longrightarrow> allowed_file (filename f) = Inr True \<Longrightarrow>
   chat_try env req w = chat_audio env f w"
  by (auto simp add: chat_try_def allowed_file_def)


lemma chat_try_no_audio:
  "files_audio req = None \<Longrightarrow> chat_try env req w = chat_text env req w"
  by (simp add: chat_try_def)

lemma snd_chat: "snd (chat env req w) = snd (chat_try env req w)"
  by (simp add: chat_def split: prod.splits sum.splits)

lemma chat_of_try_Inr:
  "chat_try env req w = (Inr r, w1) \<Longrightarrow> chat env req w = (Inr r, w1)"
  by (simp add: chat_def)

lemma chat_of_try_Inl:
  "chat_try env req w = (Inl e, w1) \<Longrightarrow>
   chat env req w = (Inr (jsonify [(''text'', JStr ''Internal server error'')] 500), w1)"
  by (simp add: chat_def)

lemma chat_text_truthy:
  assumes "request_text req = Inr text" and "truthy text"
  shows "\<exists>response w1. process_text env text w = (Inr response, w1) \<and>
           trace w1 = trace w @ pipeline_calls env text \<and>
           chat_text env req w = (Inr (jsonify response 200), w1)"
proof -
  obtain response w1 where p: "process_text env text w = (Inr response, w1)"
    "trace w1 = trace w @ pipeline_calls env text"
    using process_text_returns by blast
  then have "chat_text env req w = (Inr (jsonify response 200), w1)"
    using assms by (simp add: chat_text_def)
  with p show ?thesis by blast
qed

lemma chat_text_falsy:
  "request_text req = Inr text \<Longrightarrow> \<not> truthy text \<Longrightarrow>
   chat_text env req w = (Inr (jsonify [(''text'', JStr ''Invalid request'')] 400), w)"
  by (simp add: chat_text_def)

lemma chat_text_raises:
  "request_text req = Inl e \<Longrightarrow> chat_text env req w = (Inl e, w)"
  by (simp add: chat_text_def)


lemma allowed_file_returns: "\<exists>ok. allowed_file fname = Inr ok"
  by (auto simp add: allowed_file_def rsplit1_def py_index_def)

lemma chat_try_branches:
  "chat_try env req w = chat_text env req w \<or> (\<exists>f. chat_try env req w = chat_audio env f w)"
proof (cases "files_audio req")
  case None
  then show ?thesis by (simp add: chat_try_no_audio)
next
  case (Some f)
  obtain ok where "allowed_file (filename f) = Inr ok"
    using allowed_file_returns by blast
  with Some show ?thesis by (auto simp add: chat_try_def)
qed

lemma process_text_shape:
  "process_text env q w = (Inr d, w1) \<Longrightarrow>
   \<exists>t v. d = [(''text'', JStr t), (''voice'', JStr v)]"
  by (auto simp add: process_text_run split: gtts_outcome.splits option.splits)

lemma chat_audio_body:
  "chat_audio env f w = (Inr r, w2) \<Longrightarrow> \<exists>v. json_body r = [(''text'', v)]"
  by (auto simp add: chat_audio_def jsonify_def Let_def split: prod.splits sum.splits)

lemma chat_text_body:
  assumes "chat_text env req w = (Inr r, w2)"
  shows "json_body r = [(''text'', JStr ''Invalid request'')] \<or>
         (\<exists>text. http_status r = 200 \<and> process_text env text w = (Inr (json_body r), w2))"
proof (cases "request_text req")
  case (Inl e)
  with assms show ?thesis by (simp add: chat_text_raises)
next
  case (Inr q)
  show ?thesis
  proof (cases "truthy q")
    case True
    obtain response w1 where p: "process_text env q w = (Inr response, w1)"
      "chat_text env req w = (Inr (jsonify response 200), w1)"
      using chat_text_truthy [OF Inr True] by blast
    with assms have "r = jsonify response 200" "w2 = w1" by simp_all
    with p(1) have "http_status r = 200 \<and> process_text env q w = (Inr (json_body r), w2)"
      by (simp add: jsonify_def)
    then show ?thesis by blast
  next
    case False
    with Inr assms show ?thesis by (auto simp add: chat_text_falsy jsonify_def)
  qed
qed

lemma chat_try_body:
  assumes "chat_try env req w = (Inr r, w2)"
  shows "(\<exists>v. map_of (json_body r) ''text'' = Some v) \<and>
         (map fst (json_body r) = [''text''] \<or>
          (\<exists>text. http_status r = 200 \<and> process_text env text w = (Inr (json_body r), w2)))"
proof -
  from chat_try_branches [of env req w] show ?thesis
  proof
    assume "chat_try env req w = chat_text env req w"
    with assms have "chat_text env req w = (Inr r, w2)" by simp
    from chat_text_body [OF this] show ?thesis
    proof
      assume "json_body r = [(''text'', JStr ''Invalid request'')]"
      then show ?thesis by simp
    next
      assume "\<exists>text. http_status r = 200 \<and> process_text env text w = (Inr (json_body r), w2)"
      then obtain q where p: "http_status r = 200"
        "process_text env q w = (Inr (json_body r), w2)" by blast
      from process_text_shape [OF p(2)] obtain t v
        where "json_body r = [(''text'', JStr t), (''voice'', JStr v)]" by blast
      then have "\<exists>v. map_of (json_body r) ''text'' = Some v" by simp
      with p show ?thesis by blast
    qed
  next
    assume "\<exists>f. chat_try env req w = chat_audio env f w"
    then obtain f where "chat_audio env f w = (Inr r, w2)" using assms by auto
    from chat_audio_body [OF this] obtain v where "json_body r = [(''text'', v)]" by blast
    then show ?thesis by simp
  qed
qed

section \<open>The audio branch is terminal\<close>

text \<open>
  Claim C1, as amended. For every request that carries an audio file whose filename passes
  the allow-list, in every environment: no call of the Answer Generator and none of the
  Speech Synthesizer is made, and the first call is the save of the upload under the
  sanitised name. When that save succeeds the Speech Transcriber runs on the saved file,
  returns a transcription, and the response is 200 with the body \<open>{text: transcription}\<close>.
  When the save raises, nothing else is called and the response is the 500 of the
  catch-all.
\<close>

theorem chat_audio_is_terminal:
  assumes "files_audio req = Some f" and "allowed_file (filename f) = Inr True"
  shows "filter answer_generator_call (calls_since w (snd (chat env req w))) = []
     \<and> filter synthesizer_call (calls_since w (snd (chat env req w))) = []
     \<and> take 1 (calls_since w (snd (chat env req w))) = [E_file_save (upload_path env f)]
     \<and> (write_error env (upload_path env f) = None \<longrightarrow>
          (\<exists>transcription w1 w2.
             file_save env (upload_path env f) (content f) w = (Inr (), w1) \<and>
             files w1 (upload_path env f) = Some (content f) \<and>
             process_audio env (upload_path env f) w1 = (Inr transcription, w2) \<and>
             chat env req w = (Inr (jsonify [(''text'', transcription)] 200), w2)))
     \<and> (\<forall>e. write_error env (upload_path env f) = Some e \<longrightarrow>
          chat env req w =
            (Inr (jsonify [(''text'', JStr ''Internal server error'')] 500),
             w\<lparr>trace := trace w @ [E_file_save (upload_path env f)]\<rparr>))"
proof -
  have audio: "chat_try env req w = chat_audio env f w"
    using assms by (rule chat_try_allowed)
  obtain evs where evs:
    "trace (snd (chat_audio env f w)) = trace w @ E_file_save (upload_path env f) # evs"
    "filter answer_generator_call evs = []" "filter synthesizer_call evs = []"
    using chat_audio_calls [of env f w] by blast
  have calls: "calls_since w (snd (chat env req w)) = E_file_save (upload_path env f) # evs"
    using evs(1) by (simp add: snd_chat audio calls_since_append)
  have saved: "write_error env (upload_path env f) = None \<longrightarrow>
          (\<exists>transcription w1 w2.
             file_save env (upload_path env f) (content f) w = (Inr (), w1) \<and>
             files w1 (upload_path env f) = Some (content f) \<and>
             process_audio env (upload_path env f) w1 = (Inr transcription, w2) \<and>
             chat env req w = (Inr (jsonify [(''text'', transcription)] 200), w2))"
  proof
    assume "write_error env (upload_path env f) = None"
    then obtain transcription w1 w2 where
      s: "file_save env (upload_path env f) (content f) w = (Inr (), w1)"
         "files w1 (upload_path env f) = Some (content f)"
         "process_audio env (upload_path env f) w1 = (Inr transcription, w2)"
         "chat_audio env f w = (Inr (jsonify [(''text'', transcription)] 200), w2)"
      using chat_audio_saved [of env f w] by blast
    from s(4) have "chat env req w = (Inr (jsonify [(''text'', transcription)] 200), w2)"
      by (simp add: audio chat_of_try_Inr)
    with s(1-3) show "\<exists>transcription w1 w2.
             file_save env (upload_path env f) (content f) w = (Inr (), w1) \<and>
             files w1 (upload_path env f) = Some (content f) \<and>
             process_audio env (upload_path env f) w1 = (Inr transcription, w2) \<and>
             chat env req w = (Inr (jsonify [(''text'', transcription)] 200), w2)"
      by blast
  qed
  have failed: "\<forall>e. write_error env (upload_path env f) = Some e \<longrightarrow>
          chat env req w =
            (Inr (jsonify [(''text'', JStr ''Internal server error'')] 500),
             w\<lparr>trace := trace w @ [E_file_save (upload_path env f)]\<rparr>)"
    by (simp add: chat_def audio chat_audio_def file_save_run Let_def)
  have 1: "filter answer_generator_call (calls_since w (snd (chat env req w))) = []"
    using calls evs(2) by simp
  have 2: "filter synthesizer_call (calls_since w (snd (chat env req w))) = []"
    using calls evs(3) by simp
  have 3: "take 1 (calls_since w (snd (chat env req w))) = [E_file_save (upload_path env f)]"
    using calls by simp
  from 1 2 3 saved failed show ?thesis by (intro conjI)
qed

text \<open>
  The request of the third end-to-end scenario: the upload \<open>clip.webm\<close> is saved as
  \<open>uploads/clip.webm\<close>, transcribed, and answered with \<open>{text: hello}\<close>; the only calls are
  the save and those of the transcriber.
\<close>

theorem chat_audio_is_terminal_witness:
  "files_audio (Multipart (Some \<lparr>filename = ''clip.webm'', content = ''abc''\<rparr>) None)
     = Some \<lparr>filename = ''clip.webm'', content = ''abc''\<rparr>
   \<and> allowed_file (filename \<lparr>filename = ''clip.webm'', content = ''abc''\<rparr>) = Inr True
   \<and> write_error example_env
        (upload_path example_env \<lparr>filename = ''clip.webm'', content = ''abc''\<rparr>) = None
   \<and> fst (chat example_env
        (Multipart (Some \<lparr>filename = ''clip.webm'', content = ''abc''\<rparr>) None) empty_world)
       = Inr \<lparr>http_status = 200, json_body = [(''text'', JStr ''hello'')]\<rparr>
   \<and> filter answer_generator_call (calls_since empty_world (snd (chat example_env
        (Multipart (Some \<lparr>filename = ''clip.webm'', content = ''abc''\<rparr>) None)
        empty_world))) = []
   \<and> filter synthesizer_call (calls_since empty_world (snd (chat example_env
        (Multipart (Some \<lparr>filename = ''clip.webm'', content = ''abc''\<rparr>) None)
        empty_world))) = []
   \<and> take 1 (calls_since empty_world (snd (chat example_env
        (Multipart (Some \<lparr>filename = ''clip.webm'', content = ''abc''\<rparr>) None)
        empty_world))) = [E_file_save ''uploads/clip.webm'']"
proof -
  let ?f = "\<lparr>filename = ''clip.webm'', content = ''abc''\<rparr>"
  let ?req = "Multipart (Some ?f) None"
  have audio: "files_audio ?req = Some ?f" by simp
  have allowed: "allowed_file (filename ?f) = Inr True" by code_simp
  have writable: "write_error example_env (upload_path example_env ?f) = None"
    by (simp add: example_env_def)
  have path: "upload_path example_env ?f = ''uploads/clip.webm''" by code_simp
  have answer: "fst (chat example_env ?req empty_world)
       = Inr \<lparr>http_status = 200, json_body = [(''text'', JStr ''hello'')]\<rparr>"
    by code_simp
  note t = chat_audio_is_terminal [OF audio allowed, of empty_world example_env]
  from t have 1: "filter answer_generator_call
      (calls_since empty_world (snd (chat example_env ?req empty_world))) = []"
    by (rule conjunct1)
  from t have 2: "filter synthesizer_call
      (calls_since empty_world (snd (chat example_env ?req empty_world))) = []"
    by (rule conjunct2 [THEN conjunct1])
  from t have "take 1 (calls_since empty_world (snd (chat example_env ?req empty_world)))
      = [E_file_save (upload_path example_env ?f)]"
    by (rule conjunct2 [THEN conjunct2, THEN conjunct1])
  then have 3: "take 1 (calls_since empty_world (snd (chat example_env ?req empty_world)))
      = [E_file_save ''uploads/clip.webm'']"
    by (simp only: path)
  from audio allowed writable answer 1 2 3 show ?thesis by (intro conjI)
qed

text \<open>
  An upload named \<open>clip.webm\<close> whose save fails: the response is 500, not
  \<open>{text: transcription}\<close>, and the Speech Transcriber is not run.
\<close>

theorem failing_save_is_answered_500:
  "files_audio (Multipart (Some \<lparr>filename = ''clip.webm'', content = ''abc''\<rparr>) None)
     = Some \<lparr>filename = ''clip.webm'', content = ''abc''\<rparr>
   \<and> allowed_file ''clip.webm'' = Inr True
   \<and> fst (chat (example_env\<lparr>write_error := (\<lambda>p. Some OSError)\<rparr>)
        (Multipart (Some \<lparr>filename = ''clip.webm'', content = ''abc''\<rparr>) None) empty_world)
       = Inr \<lparr>http_status = 500, json_body = [(''text'', JStr ''Internal server error'')]\<rparr>
   \<and> calls_since empty_world (snd (chat (example_env\<lparr>write_error := (\<lambda>p. Some OSError)\<rparr>)
        (Multipart (Some \<lparr>filename = ''clip.webm'', content = ''abc''\<rparr>) None) empty_world))
       = [E_file_save ''uploads/clip.webm'']
   \<and> filter transcriber_call (calls_since empty_world
        (snd (chat (example_env\<lparr>write_error := (\<lambda>p. Some OSError)\<rparr>)
        (Multipart (Some \<lparr>filename = ''clip.webm'', content = ''abc''\<rparr>) None) empty_world)))
       = []"
  by code_simp

section \<open>The shape of the responses\<close>

text \<open>
  Claim C2, as amended. The text pipeline always returns the dictionary
  \<open>{text: string, voice: string}\<close>, and its \<open>voice\<close> is the empty string exactly when
  \<open>text_to_audio\<close> raised. Every response of \<open>chat\<close> has a \<open>text\<close> field; a response that
  is not the text pipeline's dictionary at status 200 (the audio branch, the 400 and the
  500) has the single field \<open>text\<close> and no \<open>voice\<close> field.
\<close>

theorem chat_response_shape:
  "(\<exists>t v w1. process_text env q w = (Inr [(''text'', JStr t), (''voice'', JStr v)], w1) \<and>
       (v = [] \<longleftrightarrow>
          (\<exists>e. fst (text_to_audio env t (random_token env)
                      (snd (get_anwer_openai env q w))) = Inl e)))
   \<and> (\<exists>r w2. chat env req w = (Inr r, w2) \<and>
         (\<exists>v. map_of (json_body r) ''text'' = Some v) \<and>
         (map fst (json_body r) = [''text''] \<or>
          (\<exists>text. http_status r = 200 \<and> process_text env text w = (Inr (json_body r), w2))))"
proof
  show "\<exists>t v w1. process_text env q w = (Inr [(''text'', JStr t), (''voice'', JStr v)], w1) \<and>
       (v = [] \<longleftrightarrow>
          (\<exists>e. fst (text_to_audio env t (random_token env)
                      (snd (get_anwer_openai env q w))) = Inl e))"
  proof (cases "gTTS_save env (answer_of env q) (speech_path (random_token env))")
    case (Gtts_raised e left)
    have "\<exists>w1. process_text env q w =
        (Inr [(''text'', JStr (answer_of env q)), (''voice'', JStr [])], w1)"
      using Gtts_raised by (cases left) (simp_all add: process_text_run)
    moreover have "\<exists>e. fst (text_to_audio env (answer_of env q) (random_token env)
                      (snd (get_anwer_openai env q w))) = Inl e"
      using Gtts_raised by (cases left) (simp_all add: text_to_audio_run)
    ultimately show ?thesis by blast
  next
    case (Gtts_saved mp3)
    let ?v = "url_for_static (''audio/'' @ random_token env @ ''.mp3'')"
    have "process_text env q w =
        (Inr [(''text'', JStr (answer_of env q)), (''voice'', JStr ?v)],
         w\<lparr>trace := trace w @ pipeline_calls env q,
            files := (files w)(speech_path (random_token env) \<mapsto> mp3)\<rparr>)"
      using Gtts_saved by (simp add: process_text_run)
    moreover have "?v \<noteq> []" by (simp add: url_for_static_def)
    moreover have "\<not> (\<exists>e. fst (text_to_audio env (answer_of env q) (random_token env)
                      (snd (get_anwer_openai env q w))) = Inl e)"
      using Gtts_saved by (simp add: text_to_audio_run)
    ultimately show ?thesis by blast
  qed
next
  show "\<exists>r w2. chat env req w = (Inr r, w2) \<and>
         (\<exists>v. map_of (json_body r) ''text'' = Some v) \<and>
         (map fst (json_body r) = [''text''] \<or>
          (\<exists>text. http_status r = 200 \<and> process_text env text w = (Inr (json_body r), w2)))"
  proof -
    obtain res w2 where t: "chat_try env req w = (res, w2)"
      by (cases "chat_try env req w")
    show ?thesis
    proof (cases res)
      case (Inl e)
      with t have "chat env req w =
          (Inr (jsonify [(''text'', JStr ''Internal server error'')] 500), w2)"
        by (simp add: chat_of_try_Inl)
      then show ?thesis by (simp add: jsonify_def)
    next
      case (Inr r)
      with t have c: "chat env req w = (Inr r, w2)"
        by (simp add: chat_of_try_Inr)
      from t Inr have "chat_try env req w = (Inr r, w2)" by simp
      then have body: "(\<exists>v. map_of (json_body r) ''text'' = Some v) \<and>
         (map fst (json_body r) = [''text''] \<or>
          (\<exists>text. http_status r = 200 \<and> process_text env text w = (Inr (json_body r), w2)))"
        by (rule chat_try_body)
      show ?thesis
        apply (rule_tac x = r in exI)
        apply (rule_tac x = w2 in exI)
        apply (rule conjI)
         apply (rule c)
        apply (rule body)
        done
    qed
  qed
qed

text \<open>
  The audio branch answers \<open>{text: hello}\<close> with no \<open>voice\<close> field at all, where the claim
  promises a \<open>voice\<close> field holding the empty string.
\<close>

theorem audio_response_without_voice:
  "fst (chat example_env
          (Multipart (Some \<lparr>filename = ''clip.webm'', content = ''abc''\<rparr>) None) empty_world)
     = Inr \<lparr>http_status = 200, json_body = [(''text'', JStr ''hello'')]\<rparr>
   \<and> map_of [(''text'', JStr ''hello'')] ''voice'' = None"
  by code_simp

section \<open>The credential guard of the Answer Generator\<close>

text \<open>
  Claim C3. When \<open>openai.api_key\<close> is unset (\<open>None\<close> or empty), for every question
  \<open>get_anwer_openai\<close> returns the key-missing sentinel and makes no call of
  \<open>ChatCompletion.create\<close>: the only call recorded is its own entry, and no file changes.
\<close>

theorem get_anwer_openai_key_missing:
  assumes "key_unset (openai_api_key env)"
  shows "fst (get_anwer_openai env question w) = Inr msg_key_missing
     \<and> calls_since w (snd (get_anwer_openai env question w)) = [E_get_anwer_openai question]
     \<and> length (filter api_attempt (calls_since w (snd (get_anwer_openai env question w)))) = 0
     \<and> files (snd (get_anwer_openai env question w)) = files w"
  using assms by (simp add: get_anwer_openai_run calls_since_def)

theorem get_anwer_openai_key_missing_witness:
  "key_unset (openai_api_key (example_env\<lparr>openai_api_key := None\<rparr>))
   \<and> fst (get_anwer_openai (example_env\<lparr>openai_api_key := None\<rparr>)
            (JStr ''How do I treat leaf rust?'') empty_world)
       = Inr ''OpenAI API key missing on server. Set OPENAI_API_KEY and restart the app.''
   \<and> length (filter api_attempt (calls_since empty_world
        (snd (get_anwer_openai (example_env\<lparr>openai_api_key := None\<rparr>)
            (JStr ''How do I treat leaf rust?'') empty_world)))) = 0"
proof -
  have unset: "key_unset (openai_api_key (example_env\<lparr>openai_api_key := None\<rparr>))"
    by (simp add: key_unset_def)
  show ?thesis
    using unset get_anwer_openai_key_missing [OF unset, of "JStr ''How do I treat leaf rust?''"
        empty_world]
    by (simp add: msg_key_missing_def)
qed

section \<open>The failure modes of the Answer Generator\<close>

text \<open>
  Claim C4, as amended. For every question \<open>get_anwer_openai\<close> returns a string and never
  raises. It calls \<open>ChatCompletion.create\<close> exactly once when the credential is set and not
  at all when it is unset. With the credential set: an authentication rejection gives the
  authentication-failed sentinel, any other \<open>OpenAIError\<close> the API-error sentinel, any other
  exception of the \<open>try\<close> body (a malformed completion included) the unexpected-error
  sentinel, and a well-formed completion its stripped content. The four sentinels are
  pairwise different.
\<close>

theorem get_anwer_openai_failure_modes:
  "(\<exists>s. fst (get_anwer_openai env q w) = Inr s)
   \<and> length (filter api_attempt (calls_since w (snd (get_anwer_openai env q w))))
       = (if key_unset (openai_api_key env) then 0 else 1)
   \<and> (\<not> key_unset (openai_api_key env) \<longrightarrow>
        (ChatCompletion_create env q = Inl (OpenAIError AuthenticationError) \<longrightarrow>
           fst (get_anwer_openai env q w) = Inr msg_auth_failed)
      \<and> (\<forall>k. ChatCompletion_create env q = Inl (OpenAIError k) \<and> k \<noteq> AuthenticationError \<longrightarrow>
           fst (get_anwer_openai env q w) = Inr msg_api_error)
      \<and> (\<forall>e. get_anwer_openai_try env q = Inl e \<and> (\<forall>k. e \<noteq> OpenAIError k) \<longrightarrow>
           fst (get_anwer_openai env q w) = Inr msg_unexpected)
      \<and> (\<forall>a. get_anwer_openai_try env q = Inr a \<longrightarrow>
           fst (get_anwer_openai env q w) = Inr a))
   \<and> distinct [msg_key_missing, msg_auth_failed, msg_api_error, msg_unexpected]"
proof -
  have returns: "\<exists>s. fst (get_anwer_openai env q w) = Inr s"
    by (simp add: get_anwer_openai_answer)
  have attempts: "length (filter api_attempt (calls_since w (snd (get_anwer_openai env q w))))
       = (if key_unset (openai_api_key env) then 0 else 1)"
    by (simp add: get_anwer_openai_run calls_since_def)
  have auth: "ChatCompletion_create env q = Inl (OpenAIError AuthenticationError) \<Longrightarrow>
      get_anwer_openai_try env q = Inl (OpenAIError AuthenticationError)"
    by (simp add: get_anwer_openai_try_def and_then_def)
  have api: "\<And>k. ChatCompletion_create env q = Inl (OpenAIError k) \<Longrightarrow>
      get_anwer_openai_try env q = Inl (OpenAIError k)"
    by (simp add: get_anwer_openai_try_def and_then_def)
  have other: "\<And>e. (\<forall>k. e \<noteq> OpenAIError k) \<Longrightarrow> get_anwer_openai_except e = msg_unexpected"
    by (case_tac e) simp_all
  have rest: "\<And>k. k \<noteq> AuthenticationError \<Longrightarrow>
      get_anwer_openai_except (OpenAIError k) = msg_api_error"
    by (case_tac k) simp_all
  have modes: "\<not> key_unset (openai_api_key env) \<longrightarrow>
        (ChatCompletion_create env q = Inl (OpenAIError AuthenticationError) \<longrightarrow>
           fst (get_anwer_openai env q w) = Inr msg_auth_failed)
      \<and> (\<forall>k. ChatCompletion_create env q = Inl (OpenAIError k) \<and> k \<noteq> AuthenticationError \<longrightarrow>
           fst (get_anwer_openai env q w) = Inr msg_api_error)
      \<and> (\<forall>e. get_anwer_openai_try env q = Inl e \<and> (\<forall>k. e \<noteq> OpenAIError k) \<longrightarrow>
           fst (get_anwer_openai env q w) = Inr msg_unexpected)
      \<and> (\<forall>a. get_anwer_openai_try env q = Inr a \<longrightarrow>
           fst (get_anwer_openai env q w) = Inr a)"
    using auth api other rest by (auto simp add: get_anwer_openai_run)
  have different: "distinct [msg_key_missing, msg_auth_failed, msg_api_error, msg_unexpected]"
    by (simp add: msg_key_missing_def msg_auth_failed_def msg_api_error_def msg_unexpected_def)
  from returns attempts modes different show ?thesis by blast
qed

text \<open>
  With the credential set, an authentication rejection, a rate limit and a completion
  without \<open>choices\<close> end in the three sentinels, after one attempt each.
\<close>

theorem get_anwer_openai_failure_modes_witness:
  "fst (get_anwer_openai
          (example_env\<lparr>ChatCompletion_create := (\<lambda>q. Inl (OpenAIError AuthenticationError))\<rparr>)
          (JStr ''hi'') empty_world)
     = Inr ''OpenAI authentication failed. Check OPENAI_API_KEY on the server.''
   \<and> fst (get_anwer_openai
          (example_env\<lparr>ChatCompletion_create := (\<lambda>q. Inl (OpenAIError RateLimitError))\<rparr>)
          (JStr ''hi'') empty_world)
     = Inr ''OpenAI API error. See server logs.''
   \<and> fst (get_anwer_openai
          (example_env\<lparr>ChatCompletion_create := (\<lambda>q. Inr (JObj []))\<rparr>)
          (JStr ''hi'') empty_world)
     = Inr ''Unexpected server error while contacting OpenAI.''
   \<and> fst (get_anwer_openai example_env (JStr ''hi'') empty_world) = Inr ''Apply fungicide X''
   \<and> length (filter api_attempt (calls_since empty_world
        (snd (get_anwer_openai example_env (JStr ''hi'') empty_world)))) = 1"
proof -
  let ?auth = "example_env\<lparr>ChatCompletion_create := (\<lambda>q. Inl (OpenAIError AuthenticationError))\<rparr>"
  let ?rate = "example_env\<lparr>ChatCompletion_create := (\<lambda>q. Inl (OpenAIError RateLimitError))\<rparr>"
  let ?bad = "example_env\<lparr>ChatCompletion_create := (\<lambda>q. Inr (JObj []))\<rparr>"
  have set: "\<not> key_unset (openai_api_key ?auth)" "\<not> key_unset (openai_api_key ?rate)"
    "\<not> key_unset (openai_api_key ?bad)" "\<not> key_unset (openai_api_key example_env)"
    by (simp_all add: key_unset_def example_env_def)
  have a: "ChatCompletion_create ?auth (JStr ''hi'') = Inl (OpenAIError AuthenticationError)"
    by simp
  have r: "ChatCompletion_create ?rate (JStr ''hi'') = Inl (OpenAIError RateLimitError)
      \<and> RateLimitError \<noteq> AuthenticationError"
    by simp
  have b: "get_anwer_openai_try ?bad (JStr ''hi'') = Inl KeyError \<and> (\<forall>k. KeyError \<noteq> OpenAIError k)"
    by (simp add: get_anwer_openai_try_def and_then_def)
  have g: "get_anwer_openai_try example_env (JStr ''hi'') = Inr ''Apply fungicide X''"
    by code_simp
  have 1: "fst (get_anwer_openai ?auth (JStr ''hi'') empty_world) = Inr msg_auth_failed"
    using get_anwer_openai_failure_modes [of ?auth "JStr ''hi''" empty_world] set(1) a
    by blast
  have 2: "fst (get_anwer_openai ?rate (JStr ''hi'') empty_world) = Inr msg_api_error"
    using get_anwer_openai_failure_modes [of ?rate "JStr ''hi''" empty_world] set(2) r
    by blast
  have 3: "fst (get_anwer_openai ?bad (JStr ''hi'') empty_world) = Inr msg_unexpected"
    using get_anwer_openai_failure_modes [of ?bad "JStr ''hi''" empty_world] set(3) b
    by blast
  have 4: "fst (get_anwer_openai example_env (JStr ''hi'') empty_world) = Inr ''Apply fungicide X''"
    using get_anwer_openai_failure_modes [of example_env "JStr ''hi''" empty_world] set(4) g
    by blast
  have 5: "length (filter api_attempt (calls_since empty_world
        (snd (get_anwer_openai example_env (JStr ''hi'') empty_world)))) = 1"
    using get_anwer_openai_failure_modes [of example_env "JStr ''hi''" empty_world] set(4)
    by presburger
  from 1 2 3 4 5 show ?thesis
    unfolding msg_auth_failed_def msg_api_error_def msg_unexpected_def
    by (intro conjI)
qed

text \<open>
  With the credential unset the number of API attempts is zero, not one.
\<close>

theorem no_api_attempt_without_key:
  "length (filter api_attempt (calls_since empty_world
      (snd (get_anwer_openai (example_env\<lparr>openai_api_key := None\<rparr>)
              (JStr ''How do I treat leaf rust?'') empty_world)))) \<noteq> 1"
  by (simp add: get_anwer_openai_run calls_since_def key_unset_def)

section \<open>The catch-all of the dispatcher\<close>

text \<open>
  Claim C5. \<open>chat\<close> always returns a response and never raises. Whenever an exception
  escapes the dispatch logic (the body of its \<open>try\<close>), the response is 500 with the body
  \<open>{text: Internal server error}\<close>; a response of the dispatch logic is passed on as it is.
\<close>

theorem chat_catches_every_exception:
  "(\<exists>r. fst (chat env req w) = Inr r)
   \<and> (\<forall>e. fst (chat_try env req w) = Inl e \<longrightarrow>
         fst (chat env req w) = Inr (jsonify [(''text'', JStr ''Internal server error'')] 500))
   \<and> (\<forall>r. fst (chat_try env req w) = Inr r \<longrightarrow> fst (chat env req w) = Inr r)"
  by (cases "chat_try env req w") (auto simp add: chat_def split: sum.splits)

text \<open>
  Two requests whose dispatch raises: a JSON body that is an array, where \<open>.get\<close> raises
  \<open>AttributeError\<close>, and an upload whose save fails with \<open>OSError\<close>. Both are answered 500.
\<close>

theorem chat_catches_every_exception_witness:
  "fst (chat_try example_env (Json_body (JArr [JInt 1])) empty_world) = Inl AttributeError
   \<and> fst (chat example_env (Json_body (JArr [JInt 1])) empty_world)
       = Inr \<lparr>http_status = 500, json_body = [(''text'', JStr ''Internal server error'')]\<rparr>
   \<and> fst (chat_try (example_env\<lparr>write_error := (\<lambda>p. Some OSError)\<rparr>)
        (Multipart (Some \<lparr>filename = ''clip.webm'', content = ''abc''\<rparr>) None) empty_world)
       = Inl OSError
   \<and> fst (chat (example_env\<lparr>write_error := (\<lambda>p. Some OSError)\<rparr>)
        (Multipart (Some \<lparr>filename = ''clip.webm'', content = ''abc''\<rparr>) None) empty_world)
       = Inr \<lparr>http_status = 500, json_body = [(''text'', JStr ''Internal server error'')]\<rparr>"
proof -
  let ?env = "example_env\<lparr>write_error := (\<lambda>p. Some OSError)\<rparr>"
  let ?req = "Multipart (Some \<lparr>filename = ''clip.webm'', content = ''abc''\<rparr>) None"
  have a: "fst (chat_try example_env (Json_body (JArr [JInt 1])) empty_world)
      = Inl AttributeError"
    by (simp add: chat_try_def chat_text_def request_text_def)
  have "allowed_file ''clip.webm'' = Inr True" by code_simp
  then have b: "fst (chat_try ?env ?req empty_world) = Inl OSError"
    by (simp add: chat_try_def chat_audio_def file_save_def Let_def)
  from chat_catches_every_exception [of example_env "Json_body (JArr [JInt 1])" empty_world] a
  have 1: "fst (chat example_env (Json_body (JArr [JInt 1])) empty_world)
      = Inr (jsonify [(''text'', JStr ''Internal server error'')] 500)"
    by blast
  from chat_catches_every_exception [of ?env ?req empty_world] b
  have 2: "fst (chat ?env ?req empty_world)
      = Inr (jsonify [(''text'', JStr ''Internal server error'')] 500)"
    by blast
  from a b 1 2 show ?thesis
    unfolding jsonify_def by (intro conjI)
qed

section \<open>Requests with neither audio nor text\<close>

text \<open>
  Claim C6 at a request the claim covers and the code answers differently. A JSON body that
  is a non-empty array carries no audio attachment and no text field. The dispatcher does
  not answer 400: \<open>(request.get_json(silent=True) or {}).get('text')\<close> raises on the list, and
  the catch-all answers 500. A request with no body at all is answered 400.
\<close>

theorem chat_json_array_body_is_500:
  "files_audio (Json_body (JArr [JInt 1])) = None
   \<and> form_text (Json_body (JArr [JInt 1])) = None
   \<and> chat env (Json_body (JArr [JInt 1])) w
       = (Inr \<lparr>http_status = 500, json_body = [(''text'', JStr ''Internal server error'')]\<rparr>, w)
   \<and> chat env No_body w
       = (Inr \<lparr>http_status = 400, json_body = [(''text'', JStr ''Invalid request'')]\<rparr>, w)"
  by (simp add: chat_def chat_try_def chat_text_def request_text_def dict_get_def jsonify_def)

section \<open>Uploads with a disallowed extension\<close>





section \<open>The failure modes of the Speech Transcriber\<close>






section \<open>The names of the files written\<close>










end
